theory Spec2Isabelle
  imports Main "HOL-Library.Sublist" "HOL-Library.Multiset"
begin

section \<open>Python primitives used by the scripts\<close>

text \<open>
  Titles, page texts and search expressions are Python strings. They are modelled as
  \<open>string\<close>: a character stands for the Unicode code point of the same number, 0 to 255
  (ASCII and Latin-1); text with code points from 256 on is outside the model.
  \<open>str.isspace\<close> and \<open>str.lower\<close> are given for all of these code points.
\<close>

type_synonym title = string
type_synonym wikitext = string

definition py_isspace :: "char \<Rightarrow> bool" where
  "py_isspace c = (c \<in> set [CHR '' '', CHR 0x09, CHR 0x0A, CHR 0x0B, CHR 0x0C, CHR 0x0D,
                              CHR 0x1C, CHR 0x1D, CHR 0x1E, CHR 0x1F, CHR 0x85, CHR 0xA0])"

text \<open>\<open>s.strip()\<close>: leading and trailing whitespace removed.\<close>

definition py_strip :: "string \<Rightarrow> string" where
  "py_strip s = rev (dropWhile py_isspace (rev (dropWhile py_isspace s)))"

text \<open>
  The upper-case letters below code point 256 and their lower-case forms: \<open>A\<close> to \<open>Z\<close>,
  and the Latin-1 letters \<open>0xC0\<close> to \<open>0xDE\<close> without the multiplication sign \<open>0xD7\<close>.
\<close>

definition upper_case_letters :: "char list" where
  "upper_case_letters =
     ''ABCDEFGHIJKLMNOPQRSTUVWXYZ'' @
     [CHR 0xC0, CHR 0xC1, CHR 0xC2, CHR 0xC3, CHR 0xC4, CHR 0xC5, CHR 0xC6, CHR 0xC7,
      CHR 0xC8, CHR 0xC9, CHR 0xCA, CHR 0xCB, CHR 0xCC, CHR 0xCD, CHR 0xCE, CHR 0xCF,
      CHR 0xD0, CHR 0xD1, CHR 0xD2, CHR 0xD3, CHR 0xD4, CHR 0xD5, CHR 0xD6, CHR 0xD8,
      CHR 0xD9, CHR 0xDA, CHR 0xDB, CHR 0xDC, CHR 0xDD, CHR 0xDE]"

definition lower_case_letters :: "char list" where
  "lower_case_letters =
     ''abcdefghijklmnopqrstuvwxyz'' @
     [CHR 0xE0, CHR 0xE1, CHR 0xE2, CHR 0xE3, CHR 0xE4, CHR 0xE5, CHR 0xE6, CHR 0xE7,
      CHR 0xE8, CHR 0xE9, CHR 0xEA, CHR 0xEB, CHR 0xEC, CHR 0xED, CHR 0xEE, CHR 0xEF,
      CHR 0xF0, CHR 0xF1, CHR 0xF2, CHR 0xF3, CHR 0xF4, CHR 0xF5, CHR 0xF6, CHR 0xF8,
      CHR 0xF9, CHR 0xFA, CHR 0xFB, CHR 0xFC, CHR 0xFD, CHR 0xFE]"

definition py_lower_char :: "char \<Rightarrow> char" where
  "py_lower_char c =
     (case map_of (zip upper_case_letters lower_case_letters) c of
        Some l \<Rightarrow> l
      | None \<Rightarrow> c)"

text \<open>\<open>s.lower()\<close>.\<close>

definition py_lower :: "string \<Rightarrow> string" where
  "py_lower s = map py_lower_char s"

text \<open>\<open>sub in s\<close> on strings: \<open>sub\<close> occurs in \<open>s\<close> as a contiguous substring.\<close>

fun py_in :: "string \<Rightarrow> string \<Rightarrow> bool" where
  "py_in sub [] = (sub = [])"
| "py_in sub (c # cs) = (prefix sub (c # cs) \<or> py_in sub cs)"

text \<open>
  \<open>s.split(sep)\<close> for a non-empty separator: the pieces between the non-overlapping
  occurrences of \<open>sep\<close>, found from left to right. \<open>acc\<close> holds the current piece,
  reversed. (Python raises \<open>ValueError\<close> for an empty separator; the scripts only pass
  literals, and the model does not split in that case.)
\<close>

function py_split_aux :: "string \<Rightarrow> string \<Rightarrow> string \<Rightarrow> string list" where
  "py_split_aux sep acc [] = [rev acc]"
| "py_split_aux sep acc (c # cs) =
     (if sep \<noteq> [] \<and> prefix sep (c # cs)
      then rev acc # py_split_aux sep [] (drop (length sep) (c # cs))
      else py_split_aux sep (c # acc) cs)"
  by pat_completeness auto
termination
  by (relation "measure (\<lambda>(sep, acc, s). length s)") (auto simp: neq_Nil_conv)

definition py_split :: "string \<Rightarrow> string \<Rightarrow> string list" where
  "py_split s sep = py_split_aux sep [] s"

text \<open>\<open>xs.count(v)\<close> on a list.\<close>

definition py_count :: "'a list \<Rightarrow> 'a \<Rightarrow> nat" where
  "py_count xs v = length (filter (\<lambda>x. x = v) xs)"

text \<open>
  A Python \<open>dict\<close> is modelled as an association list in insertion order, with at most
  one entry per key. \<open>d[k] = v\<close> replaces the value of an existing key in place and
  appends a new key at the end; \<open>d.values()\<close> and \<open>d.items()\<close> follow that order.
\<close>

type_synonym ('k, 'v) py_dict = "('k \<times> 'v) list"

fun dict_set :: "('k, 'v) py_dict \<Rightarrow> 'k \<Rightarrow> 'v \<Rightarrow> ('k, 'v) py_dict" where
  "dict_set [] k v = [(k, v)]"
| "dict_set ((k', v') # d) k v = (if k' = k then (k, v) # d else (k', v') # dict_set d k v)"

definition dict_values :: "('k, 'v) py_dict \<Rightarrow> 'v list" where
  "dict_values d = map snd d"

text \<open>\<open>d.update(e)\<close>: every item of \<open>e\<close> is stored into \<open>d\<close>, in the order of \<open>e\<close>.\<close>

fun dict_update :: "('k, 'v) py_dict \<Rightarrow> ('k, 'v) py_dict \<Rightarrow> ('k, 'v) py_dict" where
  "dict_update d [] = d"
| "dict_update d ((k, v) # e) = dict_update (dict_set d k v) e"

section \<open>languageredirects.py: the uniqueness filter\<close>

text \<open>
  \<^verbatim>\<open>unique_redirect_dict = {k: v for k, v in redirect_dict.items()
                          if list(redirect_dict.values()).count(v) == 1}\<close>
\<close>

definition unique_redirect_dict :: "(title, string) py_dict \<Rightarrow> (title, string) py_dict" where
  "unique_redirect_dict redirect_dict =
     filter (\<lambda>(k, v). py_count (dict_values redirect_dict) v = 1) redirect_dict"

section \<open>search.py: the query evaluator and the scan predicate\<close>

text \<open>
  The comprehension \<^verbatim>\<open>[part.strip() for part in s.split(sep) if part.strip()]\<close>, which
  \<open>matches_operator\<close> applies to the expression with \<open>~OR~\<close> and to a clause with \<open>~AND~\<close>.
\<close>

definition stripped_parts :: "string \<Rightarrow> string \<Rightarrow> string list" where
  "stripped_parts s sep = [py_strip part. part \<leftarrow> py_split s sep, py_strip part \<noteq> []]"

text \<open>
  \<open>matches_operator(term, text, case_sensitive)\<close>. A \<open>for\<close> loop that returns \<open>True\<close> at the
  first hit and \<open>False\<close> after the loop is \<open>list_ex\<close>; \<open>all(...)\<close> is \<open>list_all\<close>.
\<close>

definition matches_operator :: "string \<Rightarrow> wikitext \<Rightarrow> bool \<Rightarrow> bool" where
  "matches_operator trm content case_sensitive =
     (if py_in ''~OR~'' trm then
        (let parts = stripped_parts trm ''~OR~'' in
         list_ex (\<lambda>part.
           if py_in ''~AND~'' part then
             (let subparts = stripped_parts part ''~AND~'' in
              if case_sensitive then list_all (\<lambda>sub. py_in sub content) subparts
              else list_all (\<lambda>sub. py_in (py_lower sub) (py_lower content)) subparts)
           else
             (if case_sensitive then py_in part content
              else py_in (py_lower part) (py_lower content))) parts)
      else if py_in ''~AND~'' trm then
        (let subparts = stripped_parts trm ''~AND~'' in
         if case_sensitive then list_all (\<lambda>sub. py_in sub content) subparts
         else list_all (\<lambda>sub. py_in (py_lower sub) (py_lower content)) subparts)
      else
        (if case_sensitive then py_in trm content
         else py_in (py_lower trm) (py_lower content)))"

definition matches_search :: "string \<Rightarrow> wikitext \<Rightarrow> bool \<Rightarrow> bool" where
  "matches_search search_str content case_sensitive =
     matches_operator search_str content case_sensitive"

definition matches_ignore :: "string \<Rightarrow> wikitext \<Rightarrow> bool \<Rightarrow> bool" where
  "matches_ignore ignore_str content case_sensitive =
     matches_operator ignore_str content case_sensitive"

text \<open>
  \<open>search_page(task)\<close>. The task tuple is a record; the compiled regular expression
  \<open>country_code_pattern\<close> is the predicate \<open>country_code_pattern.search\<close> on titles.
  The result is \<open>Some title\<close> for a match and \<open>None\<close> otherwise.
\<close>

record search_task =
  task_title :: title
  task_text :: wikitext
  search_terms_list :: "string list"
  case_sensitive :: bool
  ignore_strings :: "string list"
  ignore_country_codes :: bool
  country_code_pattern :: "title \<Rightarrow> bool"

definition search_page :: "search_task \<Rightarrow> title option" where
  "search_page task =
     (if ignore_country_codes task \<and> country_code_pattern task (task_title task) then None
      else if list_ex (\<lambda>ignore_str. ignore_str \<noteq> [] \<and>
                 matches_ignore ignore_str (task_text task) (case_sensitive task))
               (ignore_strings task) then None
      else if list_ex (\<lambda>trm. matches_search trm (task_text task) (case_sensitive task))
               (search_terms_list task) then Some (task_title task)
      else None)"

text \<open>
  The evaluator as the specification words it, for comparison with \<open>matches_operator\<close>:
  the expression is split on \<open>~OR~\<close> into clauses, each clause on \<open>~AND~\<close> into terms, and
  a term is a substring test, on the case-folded strings when not case sensitive.
\<close>

definition term_present :: "bool \<Rightarrow> string \<Rightarrow> wikitext \<Rightarrow> bool" where
  "term_present sensitive t content =
     (if sensitive then py_in t content else py_in (py_lower t) (py_lower content))"

definition evaluate_spec :: "string \<Rightarrow> wikitext \<Rightarrow> bool \<Rightarrow> bool" where
  "evaluate_spec expression content sensitive =
     list_ex (\<lambda>clause. list_all (\<lambda>t. term_present sensitive t content)
                         (py_split clause ''~AND~''))
       (py_split expression ''~OR~'')"

text \<open>
  The evaluator as the code groups an expression, for the statement of what
  \<open>matches_operator\<close> computes: an expression containing \<open>~OR~\<close> is split on it, the
  pieces are stripped of surrounding whitespace and the empty ones dropped; an expression
  without \<open>~OR~\<close> is one clause, as it is. A clause is divided into terms on \<open>~AND~\<close> in
  the same way.
\<close>

definition clauses_of :: "string \<Rightarrow> string list" where
  "clauses_of expression =
     (if py_in ''~OR~'' expression then stripped_parts expression ''~OR~'' else [expression])"

definition terms_of :: "string \<Rightarrow> string list" where
  "terms_of clause =
     (if py_in ''~AND~'' clause then stripped_parts clause ''~AND~'' else [clause])"

section \<open>The content store\<close>

text \<open>
  The wiki behind Pywikibot is an external collaborator. It is a parameter of every
  script: a record of operations over an abstract store state \<open>'s\<close>. A call that can
  raise returns a sum (\<open>Inl\<close> the exception); reading calls leave the state as it is,
  mutating calls return the new state together with the exception they raised, if any.
  Making a page object (\<open>pywikibot.Page(site, title)\<close>) calls nothing and is taken not
  to raise; \<open>Page.title()\<close> is taken to return the title the page object was made from.
\<close>

text \<open>
  The exceptions a call can end with: the two classes of \<open>pywikibot.exceptions\<close> that
  the scripts tell apart, Python's \<open>AttributeError\<close>, and any other exception, with its
  message.
\<close>

datatype exn =
    NoPageError
  | LockedPageError
  | AttributeError string
  | OtherError string

text \<open>
  A generator (\<open>page.revisions()\<close>, \<open>getReferences\<close>, \<open>backlinks\<close>): the items it
  yields and, if the iteration ends by an exception, that exception.
\<close>

type_synonym 'a generator = "'a list \<times> exn option"

text \<open>A revision of a page; \<open>user\<close> is \<open>None\<close> when the revision records no user name.\<close>

record revision =
  revid :: nat
  user :: "string option"

record 's content_store =
  page_exists :: "'s \<Rightarrow> title \<Rightarrow> exn + bool"
  page_text :: "'s \<Rightarrow> title \<Rightarrow> exn + wikitext"
  page_revisions :: "'s \<Rightarrow> title \<Rightarrow> revision generator"
  page_references :: "'s \<Rightarrow> title \<Rightarrow> title generator"
  page_backlinks :: "'s \<Rightarrow> title \<Rightarrow> title generator"
  is_redirect_page :: "'s \<Rightarrow> title \<Rightarrow> exn + bool"
  redirect_target :: "'s \<Rightarrow> title \<Rightarrow> exn + title"
  load_pages :: "'s \<Rightarrow> title list \<Rightarrow> exn + (title, wikitext) py_dict"
  page_save :: "'s \<Rightarrow> title \<Rightarrow> wikitext \<Rightarrow> exn option \<times> 's"
  page_delete :: "'s \<Rightarrow> title \<Rightarrow> string \<Rightarrow> exn option \<times> 's"
  page_move :: "'s \<Rightarrow> title \<Rightarrow> title \<Rightarrow> exn option \<times> 's"

text \<open>
  What a committer does to the outside world, in order: the calls it issues against
  the store, with the exception a mutating call raised, and its \<open>time.sleep\<close> calls.
\<close>

datatype call =
    ExistsCall title
  | SaveCall title wikitext "exn option"
  | DeleteCall title string "exn option"
  | MoveCall title title "exn option"
  | SleepCall nat

fun is_mutation :: "call \<Rightarrow> bool" where
  "is_mutation (SaveCall t w r) = True"
| "is_mutation (DeleteCall t w r) = True"
| "is_mutation (MoveCall t n r) = True"
| "is_mutation c = False"

section \<open>delete_pages.py\<close>

subsection \<open>The safety gate\<close>

definition allowed_editors :: "string set" where
  "allowed_editors = {''CalvyBot'', ''Calvy''}"

text \<open>
  The body of the loop over the revisions is
  \<^verbatim>\<open>if editor and editor not in allowed_editors: return False\<close>;
  \<open>editor\<close> is falsy when it is \<open>None\<close> or the empty string.
\<close>

definition unauthorized_editor :: "string option \<Rightarrow> bool" where
  "unauthorized_editor editor =
     (case editor of None \<Rightarrow> False | Some e \<Rightarrow> e \<noteq> [] \<and> e \<notin> allowed_editors)"

text \<open>
  The loop of \<open>check_page_edit_safety\<close> over the revision generator: \<open>False\<close> at the
  first unauthorized editor, \<open>True\<close> when the generator is exhausted, and \<open>False\<close> (from
  the \<open>except\<close> clause) when the generator raises.
\<close>

fun check_all_editors :: "revision list \<Rightarrow> exn option \<Rightarrow> bool" where
  "check_all_editors [] None = True"
| "check_all_editors [] (Some e) = False"
| "check_all_editors (revision # revisions) failure =
     (if unauthorized_editor (user revision) then False
      else check_all_editors revisions failure)"

definition check_page_edit_safety :: "'s content_store \<Rightarrow> 's \<Rightarrow> title \<Rightarrow> bool" where
  "check_page_edit_safety site s page_title =
     (case page_exists site s page_title of
        Inl e \<Rightarrow> False
      | Inr False \<Rightarrow> False
      | Inr True \<Rightarrow>
          (case page_revisions site s page_title of
             (revisions, failure) \<Rightarrow> check_all_editors revisions failure))"

subsection \<open>Redirect discovery and the scan predicate\<close>

text \<open>
  The inner loop of \<open>find_redirects_to_page\<close>: every exception raised while a referring
  page is examined is caught and the page is skipped.
\<close>

definition points_to :: "'s content_store \<Rightarrow> 's \<Rightarrow> title \<Rightarrow> title \<Rightarrow> bool" where
  "points_to site s target_page_title referring_page =
     (case is_redirect_page site s referring_page of
        Inr True \<Rightarrow>
          (case redirect_target site s referring_page of
             Inr redirect_target_title \<Rightarrow> redirect_target_title = target_page_title
           | Inl e \<Rightarrow> False)
      | Inr False \<Rightarrow> False
      | Inl e \<Rightarrow> False)"

text \<open>
  When the generator of referring pages raises, the outer \<open>except\<close> clause returns the
  redirects found so far.
\<close>

definition find_redirects_to_page :: "'s content_store \<Rightarrow> 's \<Rightarrow> title \<Rightarrow> title list" where
  "find_redirects_to_page site s target_page_title =
     (case page_references site s target_page_title of
        (referring_pages, failure) \<Rightarrow>
          filter (points_to site s target_page_title) referring_pages)"

datatype safety_status = SKIPPED_UNSAFE | SAFE | ERROR

text \<open>
  \<open>process_page_for_redirects\<close>: the global \<open>deletion_queue\<close> is passed in and returned.
  No call in the body can raise (each callee catches its own exceptions), so the
  \<open>except\<close> clause that returns \<open>ERROR\<close> is never entered.
\<close>

definition process_page_for_redirects ::
  "'s content_store \<Rightarrow> 's \<Rightarrow> title list \<Rightarrow> title
     \<Rightarrow> (title \<times> title list \<times> safety_status) \<times> title list" where
  "process_page_for_redirects site s deletion_queue page_title =
     (let is_safe = check_page_edit_safety site s page_title in
      if \<not> is_safe then ((page_title, [], SKIPPED_UNSAFE), deletion_queue)
      else
        (let redirects = find_redirects_to_page site s page_title in
         ((page_title, redirects, SAFE), deletion_queue @ [page_title] @ redirects)))"


subsection \<open>The deletion committer\<close>

text \<open>What \<open>process_deletion_queue\<close> writes with \<open>tqdm.write\<close>.\<close>

datatype deletion_message =
    SkippingNotExist title
  | FailedProtected title

record 's deletion_run =
  store :: 's
  successful_deletions :: nat
  failed_deletions :: nat
  progress :: nat
  calls :: "call list"
  written :: "deletion_message list"

text \<open>
  The \<open>except\<close> clauses of the loop body, tried in their order. The third clause names
  \<open>pywikibot.exceptions.PageNotSavedError\<close>. \<open>pywikibot.exceptions\<close> defines no such
  class, so for an exception that is neither a \<open>NoPageError\<close> nor a \<open>LockedPageError\<close>
  looking that name up raises \<open>AttributeError\<close>, and this exception leaves the loop and
  \<open>process_deletion_queue\<close>; the clauses below the third one are never reached. The
  result is the exception that leaves the loop body, if any, and the state of the run.
\<close>

fun deletion_failure ::
  "title \<Rightarrow> exn \<Rightarrow> 's deletion_run \<Rightarrow> exn option \<times> 's deletion_run" where
  "deletion_failure page_title NoPageError run =
     (None, run\<lparr>written := written run @ [SkippingNotExist page_title]\<rparr>)"
| "deletion_failure page_title LockedPageError run =
     (None, run\<lparr>failed_deletions := failed_deletions run + 1,
               written := written run @ [FailedProtected page_title]\<rparr>)"
| "deletion_failure page_title e run =
     (Some (AttributeError ''PageNotSavedError''), run)"

text \<open>
  One iteration of the \<open>while\<close> loop, for the title taken from the queue. The
  \<open>finally\<close> clause (the progress bar) runs on every path, also after \<open>continue\<close> and
  when an exception leaves the body.
\<close>

definition delete_one ::
  "'s content_store \<Rightarrow> string \<Rightarrow> 's deletion_run \<Rightarrow> title \<Rightarrow> exn option \<times> 's deletion_run" where
  "delete_one site deletion_reason run page_title =
     (let run1 = run\<lparr>calls := calls run @ [ExistsCall page_title]\<rparr> in
      case
        (case page_exists site (store run) page_title of
           Inl e \<Rightarrow> deletion_failure page_title e run1
         | Inr False \<Rightarrow>
             (None, run1\<lparr>written := written run1 @ [SkippingNotExist page_title]\<rparr>)
         | Inr True \<Rightarrow>
             (case page_delete site (store run) page_title deletion_reason of
                (None, s') \<Rightarrow>
                  (None,
                   run1\<lparr>store := s',
                        calls := calls run1 @ [DeleteCall page_title deletion_reason None],
                        successful_deletions := successful_deletions run1 + 1\<rparr>)
              | (Some e, s') \<Rightarrow>
                  deletion_failure page_title e
                    (run1\<lparr>store := s',
                       calls := calls run1 @ [DeleteCall page_title deletion_reason (Some e)]\<rparr>)))
      of (raised, run2) \<Rightarrow> (raised, run2\<lparr>progress := progress run2 + 1\<rparr>))"

text \<open>
  \<open>while not deletion_queue.empty(): page_title = deletion_queue.get(); ...\<close>. An
  exception that leaves the body ends the loop.
\<close>

fun deletion_loop ::
  "'s content_store \<Rightarrow> string \<Rightarrow> 's deletion_run \<Rightarrow> title list
     \<Rightarrow> exn option \<times> 's deletion_run" where
  "deletion_loop site deletion_reason run [] = (None, run)"
| "deletion_loop site deletion_reason run (page_title # deletion_queue) =
     (case delete_one site deletion_reason run page_title of
        (Some e, run') \<Rightarrow> (Some e, run')
      | (None, run') \<Rightarrow> deletion_loop site deletion_reason run' deletion_queue)"

definition process_deletion_queue ::
  "'s content_store \<Rightarrow> string \<Rightarrow> 's \<Rightarrow> title list \<Rightarrow> exn option \<times> 's deletion_run" where
  "process_deletion_queue site deletion_reason s deletion_queue =
     deletion_loop site deletion_reason
       \<lparr>store = s, successful_deletions = 0, failed_deletions = 0, progress = 0,
        calls = [], written = []\<rparr> deletion_queue"

subsection \<open>The scan phase\<close>

text \<open>
  A completed future of \<open>phase_1\<close>: the title it was submitted for (\<open>futures[future]\<close>)
  and what \<open>future.result()\<close> does, which is to return the tuple of
  \<open>process_page_for_redirects\<close> or to raise the exception the call ended with.
\<close>

type_synonym scan_future = "title \<times> (exn + title \<times> title list \<times> safety_status)"

datatype scan_message = FoundRedirects nat title | ErrorProcessing title exn

record scan_run =
  redirect_data :: "(title, title list) py_dict"
  total_redirects_found :: nat
  skipped_unsafe :: nat
  processed_safe :: nat
  handled :: nat
  scan_written :: "scan_message list"

text \<open>
  The body of the loop over \<open>as_completed(futures)\<close>, with its \<open>try\<close> and \<open>except\<close>;
  \<open>handled\<close> is the progress bar that wraps the iterator.
\<close>

fun phase_1_step :: "scan_run \<Rightarrow> scan_future \<Rightarrow> scan_run" where
  "phase_1_step run (submitted_title, Inr (page_title, redirects_list, SKIPPED_UNSAFE)) =
     run\<lparr>skipped_unsafe := skipped_unsafe run + 1, handled := handled run + 1\<rparr>"
| "phase_1_step run (submitted_title, Inr (page_title, redirects_list, SAFE)) =
     run\<lparr>processed_safe := processed_safe run + 1,
         redirect_data := dict_set (redirect_data run) page_title redirects_list,
         total_redirects_found := total_redirects_found run + length redirects_list,
         scan_written := scan_written run @
           (if length redirects_list > 0
            then [FoundRedirects (length redirects_list) page_title] else []),
         handled := handled run + 1\<rparr>"
| "phase_1_step run (submitted_title, Inr (page_title, redirects_list, ERROR)) =
     run\<lparr>redirect_data := dict_set (redirect_data run) page_title [],
         handled := handled run + 1\<rparr>"
| "phase_1_step run (submitted_title, Inl e) =
     run\<lparr>scan_written := scan_written run @ [ErrorProcessing submitted_title e],
         redirect_data := dict_set (redirect_data run) submitted_title [],
         handled := handled run + 1\<rparr>"

definition phase_1_loop :: "scan_future list \<Rightarrow> scan_run" where
  "phase_1_loop completed =
     foldl phase_1_step
       \<lparr>redirect_data = [], total_redirects_found = 0, skipped_unsafe = 0,
        processed_safe = 0, handled = 0, scan_written = []\<rparr> completed"


text \<open>
  The worker calls of \<open>phase_1\<close>, one per title, here run one after the other in the
  order of submission, each with the global queue the previous one left. The futures
  they complete are handed to the result loop in the order \<open>as_completed\<close> yields them.
\<close>

fun submit_all ::
  "'s content_store \<Rightarrow> 's \<Rightarrow> title list \<Rightarrow> title list \<Rightarrow> scan_future list \<times> title list" where
  "submit_all site s deletion_queue [] = ([], deletion_queue)"
| "submit_all site s deletion_queue (page_title # titles) =
     (case process_page_for_redirects site s deletion_queue page_title of
        (result, deletion_queue') \<Rightarrow>
          (case submit_all site s deletion_queue' titles of
             (futures, deletion_queue'') \<Rightarrow>
               ((page_title, Inr result) # futures, deletion_queue'')))"

definition phase_1 ::
  "'s content_store \<Rightarrow> 's \<Rightarrow> (scan_future list \<Rightarrow> scan_future list) \<Rightarrow> title list
     \<Rightarrow> scan_run \<times> title list" where
  "phase_1 site s as_completed titles =
     (case submit_all site s [] titles of
        (futures, deletion_queue) \<Rightarrow> (phase_1_loop (as_completed futures), deletion_queue))"

section \<open>redirectdictionary.py\<close>




section \<open>movepages.py\<close>

text \<open>\<open>move_page\<close> returns whether the move succeeded, the store and the call it issued.\<close>

definition move_page :: "'s content_store \<Rightarrow> 's \<Rightarrow> title \<Rightarrow> title \<Rightarrow> bool \<times> 's \<times> call list" where
  "move_page site s page_name new_title =
     (case page_move site s page_name new_title of
        (None, s') \<Rightarrow> (True, s', [MoveCall page_name new_title None])
      | (Some e, s') \<Rightarrow> (False, s', [MoveCall page_name new_title (Some e)]))"

text \<open>The loop of \<open>main\<close> over the lines of the title file; it returns the calls issued.\<close>

fun movepages_main :: "'s content_store \<Rightarrow> 's \<Rightarrow> string list \<Rightarrow> 's \<times> call list" where
  "movepages_main site s [] = (s, [])"
| "movepages_main site s (line # lines) =
     (let page_name = py_strip line;
          new_title = last (py_split page_name ''/'') @ '' (scripts item parameter)''
      in case move_page site s page_name new_title of
           (moved, s', issued) \<Rightarrow>
             (case movepages_main site s' lines of
                (s'', later) \<Rightarrow>
                  (s'', issued @ (if moved then [SleepCall 6] else []) @ later)))"

section \<open>languageredirects.py: the redirect committer\<close>

definition illegal_chars :: "char list" where
  "illegal_chars =
     [CHR ''{'', CHR ''}'', CHR ''['', CHR '']'', CHR ''<'', CHR ''>'', CHR ''|'', CHR '':'',
      CHR ''?'', CHR ''*'', CHR 0x22, CHR 0x5C, CHR ''/'', CHR ''#'', CHR ''@'', CHR ''&'',
      CHR ''%'']"

definition has_illegal_chars :: "title \<Rightarrow> bool" where
  "has_illegal_chars title = list_ex (\<lambda>char. char \<in> set title) illegal_chars"

text \<open>
  \<open>create_redirect\<close> has no \<open>try\<close>: an exception of \<open>exists\<close> or \<open>save\<close> leaves the
  function (first component of the result), and the \<open>sleep\<close> after \<open>save\<close> is skipped.
\<close>

definition create_redirect ::
  "'s content_store \<Rightarrow> 's \<Rightarrow> title \<Rightarrow> title \<Rightarrow> exn option \<times> 's \<times> call list" where
  "create_redirect site s title target =
     (if has_illegal_chars target then (None, s, [])
      else
        (case page_exists site s target of
           Inl e \<Rightarrow> (Some e, s, [ExistsCall target])
         | Inr True \<Rightarrow> (None, s, [ExistsCall target])
         | Inr False \<Rightarrow>
             (let content = ''#REDIRECT [['' @ title @ '']]'' in
              case page_save site s target content of
                (None, s') \<Rightarrow>
                  (None, s', [ExistsCall target, SaveCall target content None, SleepCall 10])
              | (Some e, s') \<Rightarrow>
                  (Some e, s', [ExistsCall target, SaveCall target content (Some e)]))))"

text \<open>The loop of \<open>main\<close> over the items of \<open>unique_redirect_dict\<close>.\<close>

fun create_redirects ::
  "'s content_store \<Rightarrow> 's \<Rightarrow> (title, string) py_dict \<Rightarrow> exn option \<times> 's \<times> call list" where
  "create_redirects site s [] = (None, s, [])"
| "create_redirects site s ((page_name, target) # items) =
     (case create_redirect site s page_name target of
        (Some e, s', issued) \<Rightarrow> (Some e, s', issued)
      | (None, s', issued) \<Rightarrow>
          (case create_redirects site s' items of
             (raised, s'', later) \<Rightarrow> (raised, s'', issued @ later)))"

section \<open>search.py: rebuilding the cache\<close>

text \<open>
  The file system maps a path to the contents of the file there. \<open>json.dump\<close> is a
  parameter \<open>json_dumps\<close>, the serialisation it writes. How the write ends is a parameter
  too: \<open>open(cache_file, 'w')\<close> raises and the file is not touched; or the file is
  opened, which truncates it, and the write raises after some characters have reached
  the file; or the write completes.
\<close>

type_synonym filesystem = "string \<rightharpoonup> string"

datatype write_outcome = OpenFails exn | WriteFailsAfter nat exn | WriteCompletes

definition save_cache ::
  "((title, wikitext) py_dict \<Rightarrow> string) \<Rightarrow> write_outcome \<Rightarrow> filesystem
     \<Rightarrow> (title, wikitext) py_dict \<Rightarrow> string \<Rightarrow> exn option \<times> filesystem" where
  "save_cache json_dumps outcome fs cache cache_file =
     (case outcome of
        OpenFails e \<Rightarrow> (Some e, fs)
      | WriteFailsAfter n e \<Rightarrow> (Some e, fs(cache_file \<mapsto> take n (json_dumps cache)))
      | WriteCompletes \<Rightarrow> (None, fs(cache_file \<mapsto> json_dumps cache)))"

text \<open>\<open>[all_titles[i:i+batch_size] for i in range(0, len(all_titles), batch_size)]\<close>\<close>

function batches_of :: "nat \<Rightarrow> 'a list \<Rightarrow> 'a list list" where
  "batches_of batch_size all_titles =
     (if batch_size = 0 \<or> all_titles = [] then []
      else take batch_size all_titles # batches_of batch_size (drop batch_size all_titles))"
  by pat_completeness auto
termination
  by (relation "measure (\<lambda>(batch_size, all_titles). length all_titles)") auto

declare batches_of.simps [simp del]

definition load_batch ::
  "'s content_store \<Rightarrow> 's \<Rightarrow> title list \<Rightarrow> exn + (title, wikitext) py_dict" where
  "load_batch site s batch = load_pages site s batch"

text \<open>
  The loop over the completed batch futures: a batch that raised is reported and
  contributes nothing.
\<close>

fun merge_batches ::
  "(title, wikitext) py_dict \<Rightarrow> (exn + (title, wikitext) py_dict) list
     \<Rightarrow> (title, wikitext) py_dict" where
  "merge_batches wiki_cache [] = wiki_cache"
| "merge_batches wiki_cache (Inr batch_dict # futures) =
     merge_batches (dict_update wiki_cache batch_dict) futures"
| "merge_batches wiki_cache (Inl e # futures) = merge_batches wiki_cache futures"

definition merged_cache ::
  "'s content_store \<Rightarrow> 's
     \<Rightarrow> ((exn + (title, wikitext) py_dict) list \<Rightarrow> (exn + (title, wikitext) py_dict) list)
     \<Rightarrow> title list \<Rightarrow> (title, wikitext) py_dict" where
  "merged_cache site s as_completed all_titles =
     merge_batches [] (as_completed (map (load_batch site s) (batches_of 500 all_titles)))"

definition update_wiki_cache ::
  "'s content_store \<Rightarrow> 's
     \<Rightarrow> ((exn + (title, wikitext) py_dict) list \<Rightarrow> (exn + (title, wikitext) py_dict) list)
     \<Rightarrow> ((title, wikitext) py_dict \<Rightarrow> string) \<Rightarrow> write_outcome \<Rightarrow> filesystem
     \<Rightarrow> title list \<Rightarrow> string \<Rightarrow> (exn + (title, wikitext) py_dict) \<times> filesystem" where
  "update_wiki_cache site s as_completed json_dumps outcome fs all_titles cache_file =
     (let wiki_cache = merged_cache site s as_completed all_titles in
      case save_cache json_dumps outcome fs wiki_cache cache_file of
        (Some e, fs') \<Rightarrow> (Inl e, fs')
      | (None, fs') \<Rightarrow> (Inr wiki_cache, fs'))"


section \<open>findandreplace.py: the edit committer\<close>

text \<open>\<open>sep.join(parts)\<close> and \<open>s.replace(old, new)\<close>.\<close>

fun py_join :: "string \<Rightarrow> string list \<Rightarrow> string" where
  "py_join sep [] = []"
| "py_join sep [part] = part"
| "py_join sep (part # part' # parts) = part @ sep @ py_join sep (part' # parts)"

definition py_replace :: "string \<Rightarrow> string \<Rightarrow> string \<Rightarrow> string" where
  "py_replace s old new =
     (if old = [] then new @ concat (map (\<lambda>c. c # new) s)
      else py_join new (py_split s old))"

text \<open>
  \<^verbatim>\<open>for phrase, replacement in mappings.items(): text = text.replace(phrase, replacement)\<close>
\<close>

definition replace_phrases :: "(string, string) py_dict \<Rightarrow> wikitext \<Rightarrow> wikitext" where
  "replace_phrases mappings original_text =
     foldl (\<lambda>txt (phrase, replacement). py_replace txt phrase replacement)
       original_text mappings"

text \<open>
  One iteration of the loop of \<open>process_edit_queue\<close>: every exception is caught and
  reported, and the loop goes on. The body contains no \<open>time.sleep\<close>.
\<close>

definition edit_one ::
  "'s content_store \<Rightarrow> (string, string) py_dict \<Rightarrow> 's \<Rightarrow> title \<Rightarrow> 's \<times> call list" where
  "edit_one site mappings s page_title =
     (case page_exists site s page_title of
        Inl e \<Rightarrow> (s, [ExistsCall page_title])
      | Inr False \<Rightarrow> (s, [ExistsCall page_title])
      | Inr True \<Rightarrow>
          (case page_text site s page_title of
             Inl e \<Rightarrow> (s, [ExistsCall page_title])
           | Inr original_text \<Rightarrow>
               (let new_text = replace_phrases mappings original_text in
                if new_text \<noteq> original_text then
                  (case page_save site s page_title new_text of
                     (raised, s') \<Rightarrow>
                       (s', [ExistsCall page_title, SaveCall page_title new_text raised]))
                else (s, [ExistsCall page_title]))))"

fun process_edit_queue ::
  "'s content_store \<Rightarrow> (string, string) py_dict \<Rightarrow> 's \<Rightarrow> title list \<Rightarrow> 's \<times> call list" where
  "process_edit_queue site mappings s [] = (s, [])"
| "process_edit_queue site mappings s (page_title # edit_queue) =
     (case edit_one site mappings s page_title of
        (s', issued) \<Rightarrow>
          (case process_edit_queue site mappings s' edit_queue of
             (s'', later) \<Rightarrow> (s'', issued @ later)))"

section \<open>Properties of call sequences\<close>

text \<open>A mutating call that returned without an exception.\<close>

fun succeeded :: "call \<Rightarrow> bool" where
  "succeeded (SaveCall t w None) = True"
| "succeeded (DeleteCall t w None) = True"
| "succeeded (MoveCall t n None) = True"
| "succeeded c = False"

text \<open>
  \<open>delay_after P d cs\<close>: in the sequence \<open>cs\<close>, every call that satisfies \<open>P\<close> is
  directly followed by a sleep of \<open>d\<close> seconds.
\<close>

fun delay_after :: "(call \<Rightarrow> bool) \<Rightarrow> nat \<Rightarrow> call list \<Rightarrow> bool" where
  "delay_after P d [] = True"
| "delay_after P d [c] = (\<not> P c)"
| "delay_after P d (c # c' # cs) = ((P c \<longrightarrow> c' = SleepCall d) \<and> delay_after P d (c' # cs))"

text \<open>A mutating call that raised.\<close>

fun failed :: "call \<Rightarrow> bool" where
  "failed (SaveCall t w (Some e)) = True"
| "failed (DeleteCall t w (Some e)) = True"
| "failed (MoveCall t n (Some e)) = True"
| "failed c = False"

fun is_sleep :: "call \<Rightarrow> bool" where
  "is_sleep (SleepCall d) = True"
| "is_sleep c = False"

text \<open>
  \<open>no_delay_after P cs\<close>: in the sequence \<open>cs\<close>, no call that satisfies \<open>P\<close> is directly
  followed by a sleep.
\<close>

fun no_delay_after :: "(call \<Rightarrow> bool) \<Rightarrow> call list \<Rightarrow> bool" where
  "no_delay_after P (c # c' # cs) = ((P c \<longrightarrow> \<not> is_sleep c') \<and> no_delay_after P (c' # cs))"
| "no_delay_after P cs = True"

section \<open>Outcomes of the scan phase\<close>





section \<open>A wiki in memory\<close>

text \<open>
  A small store on which the scripts can be run: an association list from titles to
  pages. A locked page refuses every change; a missing page cannot be deleted or
  moved; a page cannot be moved onto an existing title.
\<close>

record wiki_page =
  body :: wikitext
  history :: "revision list"
  locked :: bool
  redirect_to :: "title option"

type_synonym wiki = "(title \<times> wiki_page) list"

definition wiki_save :: "wiki \<Rightarrow> title \<Rightarrow> wikitext \<Rightarrow> exn option \<times> wiki" where
  "wiki_save w t new_text =
     (case map_of w t of
        None \<Rightarrow>
          (None, dict_set w t
             \<lparr>body = new_text, history = [], locked = False, redirect_to = None\<rparr>)
      | Some p \<Rightarrow>
          if locked p then (Some LockedPageError, w)
          else (None, dict_set w t (p\<lparr>body := new_text\<rparr>)))"

definition wiki_delete :: "wiki \<Rightarrow> title \<Rightarrow> string \<Rightarrow> exn option \<times> wiki" where
  "wiki_delete w t reason =
     (case map_of w t of
        None \<Rightarrow> (Some NoPageError, w)
      | Some p \<Rightarrow>
          if locked p then (Some LockedPageError, w)
          else (None, filter (\<lambda>(u, q). u \<noteq> t) w))"

definition wiki_move :: "wiki \<Rightarrow> title \<Rightarrow> title \<Rightarrow> exn option \<times> wiki" where
  "wiki_move w t n =
     (case map_of w t of
        None \<Rightarrow> (Some NoPageError, w)
      | Some p \<Rightarrow>
          if locked p then (Some LockedPageError, w)
          else if map_of w n \<noteq> None then (Some (OtherError ''articleexists''), w)
          else (None, dict_set (filter (\<lambda>(u, q). u \<noteq> t) w) n p))"

definition wiki_store :: "wiki content_store" where
  "wiki_store =
     \<lparr>page_exists = (\<lambda>w t. Inr (map_of w t \<noteq> None)),
      page_text = (\<lambda>w t. Inr (case map_of w t of None \<Rightarrow> [] | Some p \<Rightarrow> body p)),
      page_revisions =
        (\<lambda>w t. case map_of w t of None \<Rightarrow> ([], Some NoPageError) | Some p \<Rightarrow> (history p, None)),
      page_references = (\<lambda>w t. ([u. (u, p) \<leftarrow> w, redirect_to p = Some t], None)),
      page_backlinks = (\<lambda>w t. ([u. (u, p) \<leftarrow> w, redirect_to p = Some t], None)),
      is_redirect_page =
        (\<lambda>w t. case map_of w t of None \<Rightarrow> Inl NoPageError | Some p \<Rightarrow> Inr (redirect_to p \<noteq> None)),
      redirect_target =
        (\<lambda>w t. case map_of w t of
                 None \<Rightarrow> Inl NoPageError
               | Some p \<Rightarrow>
                   (case redirect_to p of
                      None \<Rightarrow> Inl (OtherError ''not a redirect'')
                    | Some n \<Rightarrow> Inr n)),
      load_pages = (\<lambda>w ts. Inr [(t, body p). t \<leftarrow> ts, p \<leftarrow> (case map_of w t of None \<Rightarrow> [] | Some p \<Rightarrow> [p])]),
      page_save = wiki_save,
      page_delete = wiki_delete,
      page_move = wiki_move\<rparr>"

text \<open>The same wiki when every save is refused.\<close>

definition read_only_store :: "wiki content_store" where
  "read_only_store = wiki_store\<lparr>page_save := (\<lambda>w t new_text. (Some LockedPageError, w))\<rparr>"

text \<open>
  Two pages: \<open>Axe\<close>, written by the bot, with one revision whose editor is empty; and
  \<open>Hatchet\<close>, a redirect to \<open>Axe\<close> that a human editor made.
\<close>

definition axe_wiki :: wiki where
  "axe_wiki =
     [(''Axe'', \<lparr>body = ''An axe is a tool.'',
                history = [\<lparr>revid = 1, user = Some ''CalvyBot''\<rparr>, \<lparr>revid = 2, user = Some ''''\<rparr>],
                locked = False, redirect_to = None\<rparr>),
      (''Hatchet'', \<lparr>body = ''#REDIRECT [[Axe]]'',
                history = [\<lparr>revid = 3, user = Some ''Alice''\<rparr>],
                locked = False, redirect_to = Some ''Axe''\<rparr>)]"


text \<open>
  A serialisation for running \<open>save_cache\<close>: the JSON text of a dictionary whose
  strings need no escaping.
\<close>

definition json_dumps_plain :: "(title, wikitext) py_dict \<Rightarrow> string" where
  "json_dumps_plain cache =
     ''{'' @ py_join '', ''
              (map (\<lambda>(k, v). [CHR 0x22] @ k @ [CHR 0x22] @ '': '' @ [CHR 0x22] @ v @ [CHR 0x22])
                 cache) @ ''}''"

section \<open>Theorems\<close>

text \<open>
  C6. After the uniqueness filter of the redirect-creation workload, an entry mapping a
  source title to a target value is retained if and only if it was collected and its
  target value occurs exactly once among all collected target values of the batch. For
  the candidates P1: X, P2: X, P3: Y the retained mapping is exactly P3: Y: both sources
  of the colliding target are dropped.
\<close>

theorem unique_redirect_dict_retains_iff_target_unique:
  "((k, v) \<in> set (unique_redirect_dict d) \<longleftrightarrow>
      (k, v) \<in> set d \<and> py_count (dict_values d) v = 1)
   \<and> unique_redirect_dict [(''P1'', ''X''), (''P2'', ''X''), (''P3'', ''Y'')] = [(''P3'', ''Y'')]"
  by (simp add: unique_redirect_dict_def py_count_def dict_values_def)


subsection \<open>The query evaluator\<close>

lemmas py_string_defs =
  py_split_def py_strip_def py_isspace_def py_lower_def py_lower_char_def
  upper_case_letters_def lower_case_letters_def stripped_parts_def

lemma matches_operator_clauses:
  "matches_operator e t cs \<longleftrightarrow>
     (\<exists>c \<in> set (clauses_of e). \<forall>u \<in> set (terms_of c). term_present cs u t)"
  by (auto simp: matches_operator_def clauses_of_def terms_of_def term_present_def
        list_ex_iff list_all_iff)

text \<open>
  C4, as stated, fails: the code strips surrounding whitespace from the pieces it splits
  off and drops the empty ones, which the specification's grammar does not say. For the
  expression \<open>a ~OR~ b\<close> and the text \<open>b\<close> (case-insensitive) the code answers true, while
  the clauses \<open>a \<close> and \<open> b\<close> of the literal split are not substrings of the text.
\<close>

theorem evaluate_spec_counterexample:
  "matches_operator ''a ~OR~ b'' ''b'' False \<and> \<not> evaluate_spec ''a ~OR~ b'' ''b'' False"
  by (simp add: matches_operator_def evaluate_spec_def term_present_def py_string_defs)

text \<open>
  C4, amended. \<open>matches_operator\<close> treats the expression as a top-level OR of clauses and
  each clause as an AND of terms, where an expression containing \<open>~OR~\<close> (a clause
  containing \<open>~AND~\<close>) is split on that operator, every piece is stripped of surrounding
  whitespace and empty pieces are dropped, and an expression (a clause) without the
  operator is taken as it is; it returns true iff some clause has all of its terms
  present as substrings of the text, comparing case-folded text and terms when the
  search is not case sensitive. The four examples of the specification hold:
  \<open>a~OR~b\<close> on \<open>a\<close> is true, \<open>a~AND~b\<close> on \<open>a\<close> is false, \<open>A~AND~b\<close> on \<open>aB\<close> is true (all
  case-insensitive), and case-sensitive \<open>a~AND~b\<close> on \<open>AB\<close> is false.
\<close>

theorem matches_operator_stripped_grammar:
  "(matches_operator e t cs \<longleftrightarrow>
     (\<exists>c \<in> set (clauses_of e). \<forall>u \<in> set (terms_of c). term_present cs u t))
   \<and> matches_operator ''a~OR~b'' ''a'' False
   \<and> \<not> matches_operator ''a~AND~b'' ''a'' False
   \<and> matches_operator ''A~AND~b'' ''aB'' False
   \<and> \<not> matches_operator ''a~AND~b'' ''AB'' True"
proof -
  have "matches_operator ''a~OR~b'' ''a'' False"
    by (simp add: matches_operator_def py_string_defs)
  moreover have "\<not> matches_operator ''a~AND~b'' ''a'' False"
    by (simp add: matches_operator_def py_string_defs)
  moreover have "matches_operator ''A~AND~b'' ''aB'' False"
    by (simp add: matches_operator_def py_string_defs)
  moreover have "\<not> matches_operator ''a~AND~b'' ''AB'' True"
    by (simp add: matches_operator_def py_string_defs)
  ultimately show ?thesis
    using matches_operator_clauses by blast
qed

theorem matches_operator_stripped_grammar_witness:
  "matches_operator ''salt ~OR~ pepper~AND~mill'' ''A Pepper Mill'' False"
  using matches_operator_stripped_grammar
    [of "''salt ~OR~ pepper~AND~mill''" "''A Pepper Mill''" False]
  by (simp add: clauses_of_def terms_of_def term_present_def py_string_defs)

subsection \<open>The scan predicate of the search\<close>

text \<open>
  C5. For every title and text, if any non-empty ignore-expression matches the text,
  \<open>search_page\<close> reports no match for the title, whatever the search expressions are
  and whether or not one of them matches. Ignore-expressions are evaluated by the same
  function, with the same case-sensitivity flag, as search expressions.
\<close>

theorem search_page_ignore_excludes:
  "\<exists>i \<in> set (ignore_strings task). i \<noteq> [] \<and>
       matches_ignore i (task_text task) (case_sensitive task)
   \<Longrightarrow> search_page task = None \<and> matches_ignore = matches_search"
  by (auto simp: search_page_def list_ex_iff matches_ignore_def matches_search_def fun_eq_iff)

theorem search_page_ignore_excludes_witness:
  "matches_search ''axe'' ''An axe is a tool. {{Draft}}'' False
   \<and> matches_ignore ''stub~OR~draft'' ''An axe is a tool. {{Draft}}'' False
   \<and> search_page \<lparr>task_title = ''Axe'', task_text = ''An axe is a tool. {{Draft}}'',
        search_terms_list = [''axe''], case_sensitive = False,
        ignore_strings = [''stub~OR~draft''], ignore_country_codes = False,
        country_code_pattern = (\<lambda>t. False)\<rparr> = None"
proof -
  have s: "matches_search ''axe'' ''An axe is a tool. {{Draft}}'' False"
    by (simp add: matches_search_def matches_operator_def py_string_defs)
  have i: "matches_ignore ''stub~OR~draft'' ''An axe is a tool. {{Draft}}'' False"
    by (simp add: matches_ignore_def matches_operator_def py_string_defs)
  show ?thesis
    using s i search_page_ignore_excludes
      [of "\<lparr>task_title = ''Axe'', task_text = ''An axe is a tool. {{Draft}}'',
        search_terms_list = [''axe''], case_sensitive = False,
        ignore_strings = [''stub~OR~draft''], ignore_country_codes = False,
        country_code_pattern = (\<lambda>t. False)\<rparr>"]
    by simp
qed


subsection \<open>The safety gate\<close>

lemmas wiki_defs = wiki_store_def axe_wiki_def wiki_save_def wiki_delete_def wiki_move_def

lemma check_all_editors_iff:
  "check_all_editors revisions failure \<longleftrightarrow>
     failure = None \<and> (\<forall>r \<in> set revisions. \<not> unauthorized_editor (user r))"
  by (induction revisions failure rule: check_all_editors.induct) auto

lemma check_page_edit_safety_iff:
  "check_page_edit_safety site s t \<longleftrightarrow>
     page_exists site s t = Inr True \<and> snd (page_revisions site s t) = None \<and>
     (\<forall>r \<in> set (fst (page_revisions site s t)). \<not> unauthorized_editor (user r))"
  by (auto simp: check_page_edit_safety_def check_all_editors_iff
        split: sum.splits bool.splits prod.splits)

lemma unauthorized_editor_iff:
  "unauthorized_editor editor \<longleftrightarrow> (\<exists>e. editor = Some e \<and> e \<noteq> [] \<and> e \<notin> allowed_editors)"
  by (auto simp: unauthorized_editor_def split: option.splits)

text \<open>
  C10. The editor check of the safety gate ignores revisions whose recorded editor is
  empty or missing: for a page that exists and whose history was retrieved, the page is
  classified safe exactly when every revision with a non-empty editor has that editor in
  the allow-list. So a history of allow-listed editors and revisions without an editor is
  still safe, and only a revision whose non-empty editor lies outside the allow-list makes
  the page unsafe.
\<close>

theorem safety_gate_ignores_missing_editor:
  assumes "page_exists site s t = Inr True" and "page_revisions site s t = (revisions, None)"
  shows "check_page_edit_safety site s t \<longleftrightarrow>
           (\<forall>r \<in> set revisions. \<forall>e. user r = Some e \<and> e \<noteq> [] \<longrightarrow> e \<in> allowed_editors)"
  using assms by (auto simp: check_page_edit_safety_iff unauthorized_editor_iff)

theorem safety_gate_ignores_missing_editor_witness:
  "page_exists wiki_store axe_wiki ''Axe'' = Inr True
   \<and> page_revisions wiki_store axe_wiki ''Axe'' =
       ([\<lparr>revid = 1, user = Some ''CalvyBot''\<rparr>, \<lparr>revid = 2, user = Some ''''\<rparr>], None)
   \<and> check_page_edit_safety wiki_store axe_wiki ''Axe''"
proof -
  have e: "page_exists wiki_store axe_wiki ''Axe'' = Inr True"
    by (simp add: wiki_defs)
  have r: "page_revisions wiki_store axe_wiki ''Axe'' =
       ([\<lparr>revid = 1, user = Some ''CalvyBot''\<rparr>, \<lparr>revid = 2, user = Some ''''\<rparr>], None)"
    by (simp add: wiki_defs)
  show ?thesis
    using e r safety_gate_ignores_missing_editor [OF e r]
    by (simp add: allowed_editors_def)
qed

text \<open>
  C2, as stated, fails. On the wiki \<open>axe_wiki\<close>, scanned for the titles \<open>Axe\<close> and
  \<open>Hatchet\<close>: the history of \<open>Axe\<close> has a revision whose editor, the empty string, is not
  in the allow-list, and \<open>Axe\<close> is classified safe; \<open>Hatchet\<close> is classified unsafe, and
  is in the deletion queue after the scan, as a redirect to \<open>Axe\<close>.
\<close>

theorem safety_gate_counterexample:
  "page_revisions wiki_store axe_wiki ''Axe'' =
       ([\<lparr>revid = 1, user = Some ''CalvyBot''\<rparr>, \<lparr>revid = 2, user = Some ''''\<rparr>], None)
   \<and> '''' \<notin> allowed_editors
   \<and> check_page_edit_safety wiki_store axe_wiki ''Axe''
   \<and> \<not> check_page_edit_safety wiki_store axe_wiki ''Hatchet''
   \<and> snd (phase_1 wiki_store axe_wiki (\<lambda>futures. futures) [''Axe'', ''Hatchet'']) =
       [''Axe'', ''Hatchet'']"
  by (simp add: wiki_defs check_page_edit_safety_def unauthorized_editor_def allowed_editors_def
        phase_1_def process_page_for_redirects_def find_redirects_to_page_def points_to_def Let_def)

text \<open>
  C2, amended. For every title, the safety gate classifies the title as safe only if the
  page exists, its full revision history was retrieved, and every revision with a
  non-empty recorded editor has that editor in the allow-list CalvyBot, Calvy. If the
  history cannot be retrieved, or any single revision's non-empty editor lies outside the
  allow-list (whatever the other revisions are), the title is classified unsafe and its
  scan adds nothing to the deletion queue.
\<close>

theorem safety_gate_fail_closed:
  "(check_page_edit_safety site s t \<longrightarrow>
      page_exists site s t = Inr True \<and> snd (page_revisions site s t) = None \<and>
      (\<forall>r \<in> set (fst (page_revisions site s t)).
         \<forall>e. user r = Some e \<and> e \<noteq> [] \<longrightarrow> e \<in> allowed_editors))
   \<and> (snd (page_revisions site s t) \<noteq> None \<or>
        (\<exists>r \<in> set (fst (page_revisions site s t)).
           \<exists>e. user r = Some e \<and> e \<noteq> [] \<and> e \<notin> allowed_editors)
      \<longrightarrow> \<not> check_page_edit_safety site s t \<and>
          process_page_for_redirects site s deletion_queue t =
            ((t, [], SKIPPED_UNSAFE), deletion_queue))"
  by (auto simp: check_page_edit_safety_iff unauthorized_editor_iff process_page_for_redirects_def)

theorem safety_gate_fail_closed_witness:
  "\<not> check_page_edit_safety wiki_store axe_wiki ''Hatchet''
   \<and> process_page_for_redirects wiki_store axe_wiki [''Axe''] ''Hatchet'' =
       ((''Hatchet'', [], SKIPPED_UNSAFE), [''Axe''])"
proof -
  have "\<exists>r \<in> set (fst (page_revisions wiki_store axe_wiki ''Hatchet'')).
          \<exists>e. user r = Some e \<and> e \<noteq> [] \<and> e \<notin> allowed_editors"
    by (simp add: wiki_defs allowed_editors_def)
  then show ?thesis
    using safety_gate_fail_closed [of wiki_store axe_wiki "''Hatchet''" "[''Axe'']"]
    by blast
qed

subsection \<open>The deletion committer\<close>

lemma deletion_failure_calls: "calls (snd (deletion_failure t e run)) = calls run"
  by (cases "(t, e, run)" rule: deletion_failure.cases) simp_all

lemma delete_one_calls:
  "\<exists>rest. calls (snd (delete_one site reason run t)) = calls run @ ExistsCall t # rest"
proof (cases "page_exists site (store run) t")
  case (Inl e)
  obtain raised run2 where
    f: "deletion_failure t e (run\<lparr>calls := calls run @ [ExistsCall t]\<rparr>) = (raised, run2)"
    by (cases "deletion_failure t e (run\<lparr>calls := calls run @ [ExistsCall t]\<rparr>)")
  from deletion_failure_calls [of t e "run\<lparr>calls := calls run @ [ExistsCall t]\<rparr>"] f
  have "calls run2 = calls run @ [ExistsCall t]" by simp
  with Inl f show ?thesis by (simp add: delete_one_def Let_def)
next
  case (Inr present)
  show ?thesis
  proof (cases present)
    case False
    with Inr show ?thesis by (simp add: delete_one_def Let_def)
  next
    case True
    obtain r s' where d: "page_delete site (store run) t reason = (r, s')"
      by (cases "page_delete site (store run) t reason")
    show ?thesis
    proof (cases r)
      case None
      with Inr True d show ?thesis by (simp add: delete_one_def Let_def)
    next
      case (Some e)
      let ?run = "run\<lparr>calls := calls run @ [ExistsCall t], store := s',
                     calls := (calls run @ [ExistsCall t]) @ [DeleteCall t reason (Some e)]\<rparr>"
      obtain raised run2 where f: "deletion_failure t e ?run = (raised, run2)"
        by (cases "deletion_failure t e ?run")
      from deletion_failure_calls [of t e ?run] f
      have "calls run2 = calls run @ [ExistsCall t, DeleteCall t reason (Some e)]" by simp
      with Inr True d Some f show ?thesis by (simp add: delete_one_def Let_def)
    qed
  qed
qed

text \<open>
  C8. For every queued item the deletion committer first asks the store whether the page
  exists. If the page is absent at commit time, the item is reported as skipped because
  the page does not exist, the failure counter (like the success counter) stays as it
  is, the store is not changed, no call other than the existence check is issued for the
  item (no mutation call, no sleep), no exception leaves the iteration, and the loop goes
  on with the rest of the queue.
\<close>

theorem deletion_skips_missing_page:
  assumes "page_exists site (store run) page_title = Inr False"
  shows "delete_one site reason run page_title =
           (None, run\<lparr>calls := calls run @ [ExistsCall page_title],
                     written := written run @ [SkippingNotExist page_title],
                     progress := progress run + 1\<rparr>)
       \<and> deletion_loop site reason run (page_title # deletion_queue) =
           deletion_loop site reason
             (run\<lparr>calls := calls run @ [ExistsCall page_title],
                 written := written run @ [SkippingNotExist page_title],
                 progress := progress run + 1\<rparr>) deletion_queue
       \<and> (\<forall>run' t. \<exists>rest. calls (snd (delete_one site reason run' t)) =
             calls run' @ ExistsCall t # rest)"
proof -
  have "delete_one site reason run page_title =
           (None, run\<lparr>calls := calls run @ [ExistsCall page_title],
                     written := written run @ [SkippingNotExist page_title],
                     progress := progress run + 1\<rparr>)"
    using assms by (simp add: delete_one_def Let_def)
  then show ?thesis
    using delete_one_calls [of site reason] by simp
qed

theorem deletion_skips_missing_page_witness:
  "page_exists wiki_store axe_wiki ''Gone'' = Inr False
   \<and> process_deletion_queue wiki_store ''cleanup'' axe_wiki [''Gone'', ''Axe''] =
     (None,
      \<lparr>store = [(''Hatchet'', \<lparr>body = ''#REDIRECT [[Axe]]'',
                history = [\<lparr>revid = 3, user = Some ''Alice''\<rparr>],
                locked = False, redirect_to = Some ''Axe''\<rparr>)],
       successful_deletions = 1, failed_deletions = 0, progress = 2,
       calls = [ExistsCall ''Gone'', ExistsCall ''Axe'', DeleteCall ''Axe'' ''cleanup'' None],
       written = [SkippingNotExist ''Gone'']\<rparr>)"
proof -
  let ?run = "\<lparr>store = axe_wiki, successful_deletions = 0, failed_deletions = 0, progress = 0,
        calls = [], written = []\<rparr>"
  have e: "page_exists wiki_store axe_wiki ''Gone'' = Inr False"
    by (simp add: wiki_defs)
  then have e': "page_exists wiki_store (store ?run) ''Gone'' = Inr False"
    by simp
  show ?thesis
    unfolding process_deletion_queue_def
    using e deletion_skips_missing_page [OF e', of "''cleanup''" "[''Axe'']"]
    by (simp add: delete_one_def wiki_defs)
qed

subsection \<open>The redirect committer\<close>

text \<open>
  C9. The redirect-creation committer never overwrites a pre-existing document: for every
  pair of a source title and a target, if the target contains an illegal title character
  or a page with the target title exists, the store is left as it was and no mutation call
  is issued; the only mutation call ever issued is a save of the redirect text to the
  target, and it is issued (and the store can change) only when the target has no illegal
  character and the store answered that the target page does not exist.
\<close>

theorem create_redirect_no_overwrite:
  "(has_illegal_chars target \<or> page_exists site s target = Inr True \<longrightarrow>
      fst (snd (create_redirect site s title target)) = s \<and>
      \<not> list_ex is_mutation (snd (snd (create_redirect site s title target))))
   \<and> (\<forall>c \<in> set (snd (snd (create_redirect site s title target))).
        is_mutation c \<longrightarrow>
          page_exists site s target = Inr False \<and> \<not> has_illegal_chars target \<and>
          (\<exists>r. c = SaveCall target (''#REDIRECT [['' @ title @ '']]'') r))
   \<and> (fst (snd (create_redirect site s title target)) \<noteq> s \<longrightarrow>
        page_exists site s target = Inr False)"
  by (auto simp: create_redirect_def Let_def split: sum.splits bool.splits prod.splits option.splits)

theorem create_redirect_no_overwrite_witness:
  "page_exists wiki_store axe_wiki ''Hatchet'' = Inr True
   \<and> create_redirect wiki_store axe_wiki ''Axe'' ''Hatchet'' = (None, axe_wiki, [ExistsCall ''Hatchet''])
   \<and> has_illegal_chars ''Axe/fr''
   \<and> create_redirect wiki_store axe_wiki ''Axe'' ''Axe/fr'' = (None, axe_wiki, [])
   \<and> snd (snd (create_redirect wiki_store axe_wiki ''Axe'' ''Hache'')) =
       [ExistsCall ''Hache'', SaveCall ''Hache'' ''#REDIRECT [[Axe]]'' None, SleepCall 10]"
proof -
  have e: "page_exists wiki_store axe_wiki ''Hatchet'' = Inr True"
    by (simp add: wiki_defs)
  have i: "has_illegal_chars ''Axe/fr''"
    by (simp add: has_illegal_chars_def illegal_chars_def)
  have n: "\<not> has_illegal_chars ''Hache''" "\<not> has_illegal_chars ''Hatchet''"
    by (simp_all add: has_illegal_chars_def illegal_chars_def)
  have h: "create_redirect wiki_store axe_wiki ''Axe'' ''Hatchet'' =
      (None, axe_wiki, [ExistsCall ''Hatchet''])"
    using e n by (simp add: create_redirect_def)
  have f: "create_redirect wiki_store axe_wiki ''Axe'' ''Axe/fr'' = (None, axe_wiki, [])"
    using i by (simp add: create_redirect_def)
  have c: "snd (snd (create_redirect wiki_store axe_wiki ''Axe'' ''Hache'')) =
       [ExistsCall ''Hache'', SaveCall ''Hache'' ''#REDIRECT [[Axe]]'' None, SleepCall 10]"
    using n by (simp add: create_redirect_def wiki_defs Let_def)
  show ?thesis
    using e i h f c
      create_redirect_no_overwrite [of "''Hatchet''" wiki_store axe_wiki "''Axe''"]
      create_redirect_no_overwrite [of "''Hache''" wiki_store axe_wiki "''Axe''"]
    by simp
qed


subsection \<open>The delay of the committers\<close>

lemma delay_after_skip: "\<not> P c \<Longrightarrow> delay_after P d (c # cs) = delay_after P d cs"
  by (cases cs) auto

lemma movepages_main_delay:
  "delay_after succeeded 6 (snd (movepages_main site s lines))"
proof (induction lines arbitrary: s)
  case Nil
  show ?case by simp
next
  case (Cons line lines)
  let ?page_name = "py_strip line"
  let ?new_title = "last (py_split ?page_name ''/'') @ '' (scripts item parameter)''"
  obtain r s' where m: "page_move site s ?page_name ?new_title = (r, s')"
    by (cases "page_move site s ?page_name ?new_title")
  obtain s'' later where l: "movepages_main site s' lines = (s'', later)"
    by (cases "movepages_main site s' lines")
  from Cons.IH [of s'] l have d: "delay_after succeeded 6 later"
    by simp
  show ?case
  proof (cases r)
    case None
    with m l d show ?thesis
      by (simp add: move_page_def Let_def delay_after_skip)
  next
    case (Some e)
    with m l d show ?thesis
      by (simp add: move_page_def Let_def delay_after_skip)
  qed
qed

lemma create_redirect_issued:
  "create_redirect site s title target = (raised, s', issued) \<Longrightarrow>
     (raised = None \<and>
        (issued = [] \<or> issued = [ExistsCall target] \<or>
         (\<exists>w. issued = [ExistsCall target, SaveCall target w None, SleepCall 10])))
     \<or> (\<exists>e. raised = Some e \<and>
        (issued = [ExistsCall target] \<or>
         (\<exists>w. issued = [ExistsCall target, SaveCall target w (Some e)])))"
  by (auto simp: create_redirect_def Let_def
        split: if_splits sum.splits bool.splits prod.splits option.splits)

lemma create_redirects_delay:
  "delay_after succeeded 10 (snd (snd (create_redirects site s items)))"
proof (induction items arbitrary: s)
  case Nil
  show ?case by simp
next
  case (Cons item items)
  obtain page_name target where i: "item = (page_name, target)"
    by (cases item)
  obtain raised s' issued where c:
    "create_redirect site s page_name target = (raised, s', issued)"
    by (cases "create_redirect site s page_name target")
  obtain raised' s'' later where l: "create_redirects site s' items = (raised', s'', later)"
    by (cases "create_redirects site s' items")
  from Cons.IH [of s'] l have d: "delay_after succeeded 10 later"
    by simp
  from create_redirect_issued [OF c] show ?case
    using i c l d by (auto simp: delay_after_skip)
qed

lemma no_delay_after_skip: "\<not> P c \<Longrightarrow> no_delay_after P (c # cs) = no_delay_after P cs"
  by (cases cs) auto

lemma no_delay_after_Cons:
  "no_delay_after P (c # cs) =
     ((P c \<longrightarrow> cs \<noteq> [] \<longrightarrow> \<not> is_sleep (hd cs)) \<and> no_delay_after P cs)"
  by (cases cs) auto

lemma movepages_main_head:
  "snd (movepages_main site s lines) \<noteq> [] \<Longrightarrow>
     \<not> is_sleep (hd (snd (movepages_main site s lines)))"
  by (cases lines) (auto simp: move_page_def Let_def split: prod.splits option.splits)

lemma movepages_main_no_delay:
  "no_delay_after failed (snd (movepages_main site s lines))"
proof (induction lines arbitrary: s)
  case Nil
  show ?case by simp
next
  case (Cons line lines)
  let ?page_name = "py_strip line"
  let ?new_title = "last (py_split ?page_name ''/'') @ '' (scripts item parameter)''"
  obtain r s' where m: "page_move site s ?page_name ?new_title = (r, s')"
    by (cases "page_move site s ?page_name ?new_title")
  obtain s'' later where l: "movepages_main site s' lines = (s'', later)"
    by (cases "movepages_main site s' lines")
  from Cons.IH [of s'] l have d: "no_delay_after failed later"
    by simp
  from movepages_main_head [of site s' lines] l
  have h: "later \<noteq> [] \<Longrightarrow> \<not> is_sleep (hd later)"
    by simp
  show ?case
  proof (cases r)
    case None
    with m l d show ?thesis
      by (simp add: move_page_def Let_def no_delay_after_skip)
  next
    case (Some e)
    with m l d h show ?thesis
      by (simp add: move_page_def Let_def no_delay_after_Cons)
  qed
qed

lemma create_redirects_no_delay:
  "no_delay_after failed (snd (snd (create_redirects site s items)))"
proof (induction items arbitrary: s)
  case Nil
  show ?case by simp
next
  case (Cons item items)
  obtain page_name target where i: "item = (page_name, target)"
    by (cases item)
  obtain r s' issued where c:
    "create_redirect site s page_name target = (r, s', issued)"
    by (cases "create_redirect site s page_name target")
  obtain r' s'' later where l: "create_redirects site s' items = (r', s'', later)"
    by (cases "create_redirects site s' items")
  from Cons.IH [of s'] l have d: "no_delay_after failed later"
    by simp
  from create_redirect_issued [OF c] show ?case
    using i c l d by (auto simp: no_delay_after_skip)
qed

text \<open>
  C1, as stated, fails: the move committer sleeps only when the move succeeded (the
  sleep is under \<open>if move_page(page, new_title)\<close>). On \<open>axe_wiki\<close>, for the lines
  \<open>Missing/x\<close> and \<open>Axe\<close>, the first move raises and the second move is issued
  directly after it, with no sleep between the two mutation calls.
\<close>

theorem movepages_counterexample:
  "snd (movepages_main wiki_store axe_wiki [''Missing/x'' @ [CHR 0x0A], ''Axe'' @ [CHR 0x0A]]) =
     [MoveCall ''Missing/x'' ''x (scripts item parameter)'' (Some NoPageError),
      MoveCall ''Axe'' ''Axe (scripts item parameter)'' None, SleepCall 6]
   \<and> \<not> delay_after is_mutation 6
     (snd (movepages_main wiki_store axe_wiki [''Missing/x'' @ [CHR 0x0A], ''Axe'' @ [CHR 0x0A]]))"
  by (simp add: move_page_def wiki_store_def axe_wiki_def wiki_move_def py_split_def
        py_strip_def py_isspace_def Let_def)

text \<open>
  C1, amended. In every run of the move committer and of the redirect-creation committer,
  every mutation call that succeeded is directly followed by a sleep of the committer's
  fixed delay (6 seconds after a move, 10 seconds after the save of a redirect), before
  the next item is processed; consequently a mutation call that follows a successful
  mutation call is always separated from it by that delay. No sleep follows a mutation
  call that raised.
\<close>

theorem committers_sleep_after_success:
  "delay_after succeeded 6 (snd (movepages_main site s lines))
   \<and> no_delay_after failed (snd (movepages_main site s lines))
   \<and> delay_after succeeded 10 (snd (snd (create_redirects site' s' items)))
   \<and> no_delay_after failed (snd (snd (create_redirects site' s' items)))"
  by (simp add: movepages_main_delay create_redirects_delay movepages_main_no_delay
        create_redirects_no_delay)

theorem committers_sleep_after_success_witness:
  "snd (movepages_main wiki_store axe_wiki
          [''Axe'' @ [CHR 0x0A], ''Tools/Hatchet'' @ [CHR 0x0A], ''Hatchet'']) =
     [MoveCall ''Axe'' ''Axe (scripts item parameter)'' None, SleepCall 6,
      MoveCall ''Tools/Hatchet'' ''Hatchet (scripts item parameter)'' (Some NoPageError),
      MoveCall ''Hatchet'' ''Hatchet (scripts item parameter)'' None, SleepCall 6]
   \<and> delay_after succeeded 6
     [MoveCall ''Axe'' ''Axe (scripts item parameter)'' None, SleepCall 6,
      MoveCall ''Tools/Hatchet'' ''Hatchet (scripts item parameter)'' (Some NoPageError),
      MoveCall ''Hatchet'' ''Hatchet (scripts item parameter)'' None, SleepCall 6]
   \<and> no_delay_after failed
     [MoveCall ''Axe'' ''Axe (scripts item parameter)'' None, SleepCall 6,
      MoveCall ''Tools/Hatchet'' ''Hatchet (scripts item parameter)'' (Some NoPageError),
      MoveCall ''Hatchet'' ''Hatchet (scripts item parameter)'' None, SleepCall 6]
   \<and> snd (snd (create_redirects wiki_store axe_wiki
                  [(''Axe'', ''Hache''), (''Axe'', ''Hatchet'')])) =
     [ExistsCall ''Hache'', SaveCall ''Hache'' ''#REDIRECT [[Axe]]'' None, SleepCall 10,
      ExistsCall ''Hatchet'']
   \<and> delay_after succeeded 10
     [ExistsCall ''Hache'', SaveCall ''Hache'' ''#REDIRECT [[Axe]]'' None, SleepCall 10,
      ExistsCall ''Hatchet'']
   \<and> snd (snd (create_redirects read_only_store axe_wiki
                  [(''Axe'', ''Hache''), (''Axe'', ''Adze'')])) =
     [ExistsCall ''Hache'', SaveCall ''Hache'' ''#REDIRECT [[Axe]]'' (Some LockedPageError)]
   \<and> no_delay_after failed
     [ExistsCall ''Hache'', SaveCall ''Hache'' ''#REDIRECT [[Axe]]'' (Some LockedPageError)]"
proof -
  let ?lines = "[''Axe'' @ [CHR 0x0A], ''Tools/Hatchet'' @ [CHR 0x0A], ''Hatchet'']"
  let ?items = "[(''Axe'', ''Hache''), (''Axe'', ''Hatchet'')]"
  let ?items' = "[(''Axe'', ''Hache''), (''Axe'', ''Adze'')]"
  have m: "snd (movepages_main wiki_store axe_wiki ?lines) =
     [MoveCall ''Axe'' ''Axe (scripts item parameter)'' None, SleepCall 6,
      MoveCall ''Tools/Hatchet'' ''Hatchet (scripts item parameter)'' (Some NoPageError),
      MoveCall ''Hatchet'' ''Hatchet (scripts item parameter)'' None, SleepCall 6]"
    by (simp add: move_page_def wiki_store_def axe_wiki_def wiki_move_def py_split_def
        py_strip_def py_isspace_def Let_def)
  have n: "\<not> has_illegal_chars ''Hache''" "\<not> has_illegal_chars ''Hatchet''"
    by (simp_all add: has_illegal_chars_def illegal_chars_def)
  have c: "snd (snd (create_redirects wiki_store axe_wiki ?items)) =
     [ExistsCall ''Hache'', SaveCall ''Hache'' ''#REDIRECT [[Axe]]'' None, SleepCall 10,
      ExistsCall ''Hatchet'']"
    using n by (simp add: create_redirect_def wiki_defs Let_def)
  have r: "snd (snd (create_redirects read_only_store axe_wiki ?items')) =
     [ExistsCall ''Hache'', SaveCall ''Hache'' ''#REDIRECT [[Axe]]'' (Some LockedPageError)]"
    using n by (simp add: create_redirect_def read_only_store_def wiki_defs Let_def)
  note T = committers_sleep_after_success
    [where site = wiki_store and s = axe_wiki and lines = ?lines
       and site' = wiki_store and s' = axe_wiki and items = ?items]
  note T' = committers_sleep_after_success
    [where site = wiki_store and s = axe_wiki and lines = ?lines
       and site' = read_only_store and s' = axe_wiki and items = ?items']
  from T have 1: "delay_after succeeded 6 (snd (movepages_main wiki_store axe_wiki ?lines))"
    by (rule conjunct1)
  from T have 2: "no_delay_after failed (snd (movepages_main wiki_store axe_wiki ?lines))"
    by (rule conjunct2 [THEN conjunct1])
  from T have 3:
    "delay_after succeeded 10 (snd (snd (create_redirects wiki_store axe_wiki ?items)))"
    by (rule conjunct2 [THEN conjunct2, THEN conjunct1])
  from T' have 4:
    "no_delay_after failed (snd (snd (create_redirects read_only_store axe_wiki ?items')))"
    by (rule conjunct2 [THEN conjunct2, THEN conjunct2])
  show ?thesis
    using m c r 1 2 3 4 by (simp only: simp_thms)
qed

subsection \<open>The scan phase\<close>































subsection \<open>Rebuilding the cache\<close>

lemma batches_of_two: "batches_of 500 [a, b] = [[a, b]]"
  by (simp add: batches_of.simps)

lemma merged_axe:
  "merged_cache wiki_store axe_wiki (\<lambda>futures. futures) [''Axe'', ''Hatchet''] =
     [(''Axe'', ''An axe is a tool.''), (''Hatchet'', ''#REDIRECT [[Axe]]'')]"
  by (simp add: merged_cache_def batches_of_two load_batch_def wiki_store_def axe_wiki_def)

text \<open>
  C7, as stated, fails: \<open>save_cache\<close> opens the cache file itself for writing and dumps
  into it; there is no temporary file. With a previous snapshot \<open>{}\<close> in
  \<open>wiki_cache.json\<close> and a write that fails after five characters, the file holds the
  first five characters of the new serialisation: the previous snapshot is gone.
\<close>

theorem update_wiki_cache_counterexample:
  "snd (update_wiki_cache wiki_store axe_wiki (\<lambda>futures. futures) json_dumps_plain
          (WriteFailsAfter 5 (OtherError ''No space left on device''))
          [''wiki_cache.json'' \<mapsto> ''{}''] [''Axe'', ''Hatchet''] ''wiki_cache.json'')
       ''wiki_cache.json'' = Some [CHR ''{'', CHR 0x22, CHR ''A'', CHR ''x'', CHR ''e'']"
  by (simp add: update_wiki_cache_def save_cache_def merged_axe json_dumps_plain_def)

text \<open>
  C7, amended. The cache rebuild persists the merged title-to-text mapping by writing it
  into the cache file itself, after all batches were merged, and touches no other path:
  when the write completes, the file holds exactly the serialised merged mapping and the
  mapping is returned; when the file cannot be opened, the file system is unchanged; when
  the write fails part-way, the file holds the part of the new serialisation written so
  far.
\<close>

theorem update_wiki_cache_writes_in_place:
  "(outcome = WriteCompletes \<longrightarrow>
      update_wiki_cache site s as_completed json_dumps outcome fs all_titles cache_file =
        (Inr (merged_cache site s as_completed all_titles),
         fs(cache_file \<mapsto> json_dumps (merged_cache site s as_completed all_titles))))
   \<and> (\<forall>e. outcome = OpenFails e \<longrightarrow>
        update_wiki_cache site s as_completed json_dumps outcome fs all_titles cache_file =
          (Inl e, fs))
   \<and> (\<forall>n e. outcome = WriteFailsAfter n e \<longrightarrow>
        update_wiki_cache site s as_completed json_dumps outcome fs all_titles cache_file =
          (Inl e, fs(cache_file \<mapsto>
             take n (json_dumps (merged_cache site s as_completed all_titles)))))
   \<and> (\<forall>path. path \<noteq> cache_file \<longrightarrow>
        snd (update_wiki_cache site s as_completed json_dumps outcome fs all_titles cache_file)
          path = fs path)"
  by (cases outcome) (simp_all add: update_wiki_cache_def save_cache_def Let_def)

theorem update_wiki_cache_writes_in_place_witness:
  "update_wiki_cache wiki_store axe_wiki (\<lambda>futures. futures) json_dumps_plain WriteCompletes
          [''wiki_cache.json'' \<mapsto> ''{}'', ''notes.txt'' \<mapsto> ''x''] [''Axe'', ''Hatchet''] ''wiki_cache.json'' =
     (Inr [(''Axe'', ''An axe is a tool.''), (''Hatchet'', ''#REDIRECT [[Axe]]'')],
      [''wiki_cache.json'' \<mapsto> json_dumps_plain [(''Axe'', ''An axe is a tool.''), (''Hatchet'', ''#REDIRECT [[Axe]]'')],
       ''notes.txt'' \<mapsto> ''x''])"
  using update_wiki_cache_writes_in_place
    [of WriteCompletes wiki_store axe_wiki "\<lambda>futures. futures" json_dumps_plain
        "[''wiki_cache.json'' \<mapsto> ''{}'', ''notes.txt'' \<mapsto> ''x'']" "[''Axe'', ''Hatchet'']"
        "''wiki_cache.json''"]
  by (simp add: merged_axe fun_upd_twist)


subsection \<open>The edit committer\<close>

text \<open>
  The committer of \<open>findandreplace.py\<close> issues its save calls with no sleep at all
  between them, although \<open>main\<close> announces the queue as processed with rate limiting.
\<close>

lemma edit_one_never_sleeps: "SleepCall d \<notin> set (snd (edit_one site mappings s page_title))"
  by (auto simp: edit_one_def Let_def split: sum.splits bool.splits prod.splits)

lemma process_edit_queue_never_sleeps:
  "SleepCall d \<notin> set (snd (process_edit_queue site mappings s edit_queue))"
proof (induction edit_queue arbitrary: s)
  case Nil
  show ?case by simp
next
  case (Cons page_title edit_queue)
  obtain s' issued where e: "edit_one site mappings s page_title = (s', issued)"
    by (cases "edit_one site mappings s page_title")
  obtain s'' later where l: "process_edit_queue site mappings s' edit_queue = (s'', later)"
    by (cases "process_edit_queue site mappings s' edit_queue")
  from edit_one_never_sleeps [of d site mappings s page_title] e
  have "SleepCall d \<notin> set issued" by simp
  moreover from Cons.IH [of s'] l have "SleepCall d \<notin> set later" by simp
  ultimately show ?case using e l by simp
qed

lemma process_edit_queue_saves_without_delay:
  "snd (process_edit_queue wiki_store [(''xe'', ''dze'')] axe_wiki [''Axe'', ''Hatchet'']) =
     [ExistsCall ''Axe'', SaveCall ''Axe'' ''An adze is a tool.'' None,
      ExistsCall ''Hatchet'', SaveCall ''Hatchet'' ''#REDIRECT [[Adze]]'' None]"
  by (simp add: edit_one_def replace_phrases_def py_replace_def py_split_def wiki_defs Let_def)

end
